theory Spec2Isabelle
  imports Complex_Main "HOL-Library.Sublist" "HOL-Library.Word" "HOL-Library.Signed_Division"
begin

section \<open>Errors\<close>

text \<open>
  A Go \<open>error\<close> built by the package itself: \<open>errors.New(msg)\<close> (also
  \<open>fmt.Errorf(msg)\<close> without a verb, and an error handed back by a library) is
  \<open>New msg\<close>; \<open>fmt.Errorf("prefix: %w", err)\<close> is \<open>Errorf p err\<close>.
  The value \<open>nil\<close> of type \<open>error\<close> is \<open>None\<close> of \<open>go_error option\<close>.
\<close>

datatype go_error = New string | Errorf string go_error

fun Error :: "go_error \<Rightarrow> string" where
  "Error (New msg) = msg"
| "Error (Errorf p err) = p @ Error err"

section \<open>Configuration (initialization.go)\<close>

text \<open>
  \<open>time.Duration\<close> is a count of nanoseconds (\<open>int64\<close>); the only operation on it
  here is the comparison with zero, so it is an \<open>int\<close>. A bucket boundary is a
  \<open>float64\<close>; the code only counts the boundaries and hands them on, so a boundary is
  a \<open>real\<close>.
\<close>

record InstrumentViewConfig =
  InstrumentName :: string
  Buckets :: "real list"

record Config =
  OTLPEndpoint :: string
  OTLPInsecure :: bool
  OTLPCAFile :: string
  PushInterval :: int
  ServiceName :: string
  Environment :: string
  CustomHistogramViews :: "InstrumentViewConfig list"

type_synonym Option = "Config \<Rightarrow> Config"

definition Second :: int where
  "Second = 1000000000"

definition WithPushInterval :: "int \<Rightarrow> Option" where
  "WithPushInterval interval cfg = cfg\<lparr>PushInterval := interval\<rparr>"

definition WithCustomHistogramViews :: "InstrumentViewConfig list \<Rightarrow> Option" where
  "WithCustomHistogramViews views cfg = cfg\<lparr>CustomHistogramViews := views\<rparr>"

definition WithOTLPInsecure :: "bool \<Rightarrow> Option" where
  "WithOTLPInsecure insecure cfg = cfg\<lparr>OTLPInsecure := insecure\<rparr>"

definition WithOTLPCAFile :: "string \<Rightarrow> Option" where
  "WithOTLPCAFile caFile cfg = cfg\<lparr>OTLPCAFile := caFile\<rparr>"

text \<open>\<open>NewConfig\<close>: the defaults, then every option in call order.\<close>

definition NewConfig :: "string \<Rightarrow> string \<Rightarrow> string \<Rightarrow> Option list \<Rightarrow> Config" where
  "NewConfig endpoint serviceName environment opts =
     fold (\<lambda>opt c. opt c) opts
       \<lparr>OTLPEndpoint = endpoint, OTLPInsecure = True, OTLPCAFile = [],
        PushInterval = 10 * Second, ServiceName = serviceName,
        Environment = environment, CustomHistogramViews = []\<rparr>"

text \<open>
  \<open>validateConfig\<close>: the five field checks in source order, then the loop over the
  histogram views, which returns at the first offending view.
\<close>

fun validateViews :: "InstrumentViewConfig list \<Rightarrow> go_error option" where
  "validateViews [] = None"
| "validateViews (hv # hvs) =
     (if InstrumentName hv = [] then
        Some (New ''found a CustomHistogramView with empty InstrumentName'')
      else if length (Buckets hv) = 0 \<or> length (Buckets hv) < 2 then
        Some (New ''found a CustomHistogramView with less than 2 Buckets'')
      else validateViews hvs)"

definition validateConfig :: "Config \<Rightarrow> go_error option" where
  "validateConfig cfg =
     (if OTLPEndpoint cfg = [] then
        Some (New ''OTLPEndpoint is required (e.g. 'localhost:4317')'')
      else if ServiceName cfg = [] then
        Some (New ''ServiceName is required'')
      else if Environment cfg = [] then
        Some (New ''Environment is required (e.g. 'dev', 'staging', 'prod')'')
      else if PushInterval cfg \<le> 0 then
        Some (New ''PushInterval must be greater than 0'')
      else if \<not> OTLPInsecure cfg \<and> OTLPCAFile cfg = [] then
        Some (New ''CA file required for secure mode'')
      else validateViews (CustomHistogramViews cfg))"

section \<open>The process-wide lifecycle state (initialization.go)\<close>

text \<open>
  What the package builds through the OpenTelemetry SDK, as plain data: an exporter is
  its endpoint and transport credentials, a resource the two attributes the code sets,
  a view an instrument name with explicit bucket boundaries, and a meter provider the
  periodic reader's exporter and interval, the resource and the views.
\<close>

datatype TransportCredentials = InsecureCredentials | ClientTLSFromFile string

record Exporter =
  exp_endpoint :: string
  exp_credentials :: TransportCredentials

record Resource =
  res_service_name :: string
  res_deployment_environment :: string

record View =
  view_instrument :: string
  view_boundaries :: "real list"

record MeterProvider =
  mp_exporter :: Exporter
  mp_interval :: int
  mp_resource :: Resource
  mp_views :: "View list"

text \<open>
  The outside world, as seen by one call: whether \<open>credentials.NewClientTLSFromFile\<close>,
  \<open>otlpmetricgrpc.New\<close> and \<open>resource.New\<close> fail (and with which error), what
  \<open>os.Getenv\<close> returns, and what the provider's \<open>Shutdown(ctx)\<close> returns.
\<close>

record World =
  NewClientTLSFromFile :: "string \<Rightarrow> go_error option"
  otlpmetricgrpc_New :: "string \<Rightarrow> TransportCredentials \<Rightarrow> go_error option"
  resource_New :: "string \<Rightarrow> string \<Rightarrow> go_error option"
  Getenv :: "string \<Rightarrow> string"
  mp_Shutdown :: "MeterProvider \<Rightarrow> go_error option"

text \<open>The side effects of the package on the outside world, in the order they happen.\<close>

datatype Event =
    LoadCAFile string
  | CreateExporter string TransportCredentials
  | CreateResource string string
  | CreateMeterProvider MeterProvider
  | SetMeterProvider MeterProvider
  | ProviderShutdown MeterProvider
  | LogInitialized string bool
  | LogSkipFlush
  | LogShutdownError go_error

text \<open>
  The package-level variables. A \<open>sync.Once\<close> is the flag "its body has run".
  \<open>shutdownFunc\<close> is a closure over the provider \<open>mp\<close> that calls \<open>mp.Shutdown\<close>, so
  it is the provider it closes over. \<open>otel_global\<close> is the global meter provider of the
  OpenTelemetry API, which \<open>apimetric.SetMeterProvider\<close> writes and
  \<open>apimetric.GetMeterProvider\<close> reads: \<open>None\<close> while nothing has been installed (the
  API's default provider, whose meters record nothing). \<open>trace\<close> collects the events.
\<close>

record State =
  meterProvider :: "MeterProvider option"
  shutdownFunc :: "MeterProvider option"
  initOnce :: bool
  shutdownOnce :: bool
  initialized :: bool
  otel_global :: "MeterProvider option"
  trace :: "Event list"

definition init_state :: State where
  "init_state = \<lparr>meterProvider = None, shutdownFunc = None, initOnce = False,
     shutdownOnce = False, initialized = False, otel_global = None, trace = []\<rparr>"

fun buildCustomViews :: "InstrumentViewConfig list \<Rightarrow> View list" where
  "buildCustomViews [] = []"
| "buildCustomViews (v # vs) =
     \<lparr>view_instrument = InstrumentName v, view_boundaries = Buckets v\<rparr> # buildCustomViews vs"

text \<open>\<open>createOTLPExporter\<close>, with the events of the attempt.\<close>

definition newExporter :: "World \<Rightarrow> string \<Rightarrow> TransportCredentials \<Rightarrow> go_error + Exporter" where
  "newExporter w endpoint creds =
     (case otlpmetricgrpc_New w endpoint creds of
        Some err \<Rightarrow> Inl err
      | None \<Rightarrow> Inr \<lparr>exp_endpoint = endpoint, exp_credentials = creds\<rparr>)"

definition createOTLPExporter :: "World \<Rightarrow> Config \<Rightarrow> Event list \<times> (go_error + Exporter)" where
  "createOTLPExporter w cfg =
     (if OTLPInsecure cfg then
        ([CreateExporter (OTLPEndpoint cfg) InsecureCredentials],
         newExporter w (OTLPEndpoint cfg) InsecureCredentials)
      else
        (case NewClientTLSFromFile w (OTLPCAFile cfg) of
           Some err \<Rightarrow>
             ([LoadCAFile (OTLPCAFile cfg)], Inl (Errorf ''failed to load CA file: '' err))
         | None \<Rightarrow>
             ([LoadCAFile (OTLPCAFile cfg),
               CreateExporter (OTLPEndpoint cfg) (ClientTLSFromFile (OTLPCAFile cfg))],
              newExporter w (OTLPEndpoint cfg) (ClientTLSFromFile (OTLPCAFile cfg)))))"

text \<open>The body handed to \<open>initOnce.Do\<close>; it returns the state and \<open>initErr\<close>.\<close>

definition initBody :: "World \<Rightarrow> Config \<Rightarrow> State \<Rightarrow> State \<times> go_error option" where
  "initBody w cfg st =
     (case createOTLPExporter w cfg of
        (evs, Inl err) \<Rightarrow>
          (st\<lparr>trace := trace st @ evs\<rparr>, Some (Errorf ''failed to create OTLP exporter: '' err))
      | (evs, Inr exporter) \<Rightarrow>
          (case resource_New w (ServiceName cfg) (Environment cfg) of
             Some err \<Rightarrow>
               (st\<lparr>trace := trace st @ evs @ [CreateResource (ServiceName cfg) (Environment cfg)]\<rparr>,
                Some (Errorf ''failed to create resource: '' err))
           | None \<Rightarrow>
               (let mp = \<lparr>mp_exporter = exporter, mp_interval = PushInterval cfg,
                          mp_resource = \<lparr>res_service_name = ServiceName cfg,
                                         res_deployment_environment = Environment cfg\<rparr>,
                          mp_views = buildCustomViews (CustomHistogramViews cfg)\<rparr>
                in (st\<lparr>meterProvider := Some mp, otel_global := Some mp,
                        shutdownFunc := Some mp, initialized := True,
                        trace := trace st @ evs @
                          [CreateResource (ServiceName cfg) (Environment cfg),
                           CreateMeterProvider mp, SetMeterProvider mp,
                           LogInitialized (OTLPEndpoint cfg) (OTLPInsecure cfg)]\<rparr>,
                    None))))"

text \<open>
  \<open>InitMetrics\<close>: validation first; then \<open>initErr\<close> is a fresh local \<open>nil\<close>, and the
  body runs only if \<open>initOnce\<close> has not fired, which it has once the body has run.
\<close>

definition InitMetrics :: "World \<Rightarrow> Config \<Rightarrow> State \<Rightarrow> State \<times> go_error option" where
  "InitMetrics w cfg st =
     (case validateConfig cfg of
        Some err \<Rightarrow> (st, Some (Errorf ''invalid OTLP metrics config: '' err))
      | None \<Rightarrow>
          if initOnce st then (st, None)
          else initBody w cfg (st\<lparr>initOnce := True\<rparr>))"

text \<open>
  \<open>ShutdownMetrics\<close>: \<open>err\<close> is a fresh local \<open>nil\<close>; the body runs only if
  \<open>shutdownOnce\<close> has not fired. The body returns early when not initialized;
  otherwise it skips the flush when METRICS_SKIP_FLUSH is "1", calls \<open>shutdownFunc\<close>
  when it is set, and clears \<open>initialized\<close>.
\<close>

definition shutdownBody :: "World \<Rightarrow> State \<Rightarrow> State \<times> go_error option" where
  "shutdownBody w st =
     (if \<not> initialized st then (st, None)
      else if Getenv w ''METRICS_SKIP_FLUSH'' = ''1'' then
        (st\<lparr>initialized := False, trace := trace st @ [LogSkipFlush]\<rparr>, None)
      else
        (case shutdownFunc st of
           None \<Rightarrow> (st\<lparr>initialized := False\<rparr>, None)
         | Some mp \<Rightarrow>
             (case mp_Shutdown w mp of
                None \<Rightarrow>
                  (st\<lparr>initialized := False, trace := trace st @ [ProviderShutdown mp]\<rparr>, None)
              | Some err \<Rightarrow>
                  (st\<lparr>initialized := False,
                      trace := trace st @ [ProviderShutdown mp, LogShutdownError err]\<rparr>,
                   Some err))))"

definition ShutdownMetrics :: "World \<Rightarrow> State \<Rightarrow> State \<times> go_error option" where
  "ShutdownMetrics w st =
     (if shutdownOnce st then (st, None)
      else shutdownBody w (st\<lparr>shutdownOnce := True\<rparr>))"

text \<open>
  \<open>GetMeter\<close>. A meter is known by the provider it is drawn from and its scope name:
  \<open>DefaultMeter\<close> is a meter of the API's default global provider (nothing installed),
  \<open>ProviderMeter mp\<close> a meter of the SDK provider \<open>mp\<close>.
\<close>

datatype Meter = DefaultMeter string | ProviderMeter MeterProvider string

definition GetMeterProvider_Meter :: "State \<Rightarrow> string \<Rightarrow> Meter" where
  "GetMeterProvider_Meter st name =
     (case otel_global st of None \<Rightarrow> DefaultMeter name | Some mp \<Rightarrow> ProviderMeter mp name)"

definition GetMeter :: "State \<Rightarrow> string \<Rightarrow> Meter" where
  "GetMeter st name =
     (case meterProvider st of
        None \<Rightarrow> GetMeterProvider_Meter st name
      | Some mp \<Rightarrow>
          if \<not> initialized st then GetMeterProvider_Meter st name
          else ProviderMeter mp name)"

text \<open>A run of the process: any sequence of calls, each in its own outside world.\<close>

datatype Call = CallInitMetrics World Config | CallShutdownMetrics World

fun step :: "Call \<Rightarrow> State \<Rightarrow> State" where
  "step (CallInitMetrics w cfg) st = fst (InitMetrics w cfg st)"
| "step (CallShutdownMetrics w) st = fst (ShutdownMetrics w st)"

definition run :: "Call list \<Rightarrow> State \<Rightarrow> State" where
  "run calls st = fold step calls st"

section \<open>HTTP request metrics\<close>

text \<open>
  An attribute is a key with a string, integer or boolean value
  (\<open>attribute.String\<close>, \<open>attribute.Int\<close>, \<open>attribute.Bool\<close>). A synchronous instrument
  is an SDK handle that only receives measurements, so it is the list of the
  measurements it has received, oldest first: for a counter the \<open>Add\<close> calls, for a
  histogram the \<open>Record\<close> calls, each with its value and attributes.
\<close>

datatype AttrValue = attribute_String string | attribute_Int int | attribute_Bool bool

type_synonym KeyValue = "string \<times> AttrValue"

type_synonym Measurement = "int \<times> KeyValue list"

text \<open>
  \<open>inFlight\<close> is the \<open>int64\<close> updated by \<open>atomic.AddInt64\<close>, which wraps around; the
  atomic updates of concurrent callers happen one after the other, so a sequence of
  calls is a list. The asynchronous gauge \<open>RequestsInFlight\<close> holds no value of its own:
  the callback computes what it reports.
\<close>

record HTTPMetrics =
  RequestsTotal :: "Measurement list"
  RequestsErrors :: "Measurement list"
  RequestsDuration :: "Measurement list"
  ResponseSize :: "Measurement list"
  inFlight :: "64 word"

text \<open>
  A meter, as far as the constructor can tell: which instrument creations fail, by
  instrument name, and whether registering a callback fails.
\<close>

record MeterBehaviour =
  Int64Counter :: "string \<Rightarrow> go_error option"
  Int64Histogram :: "string \<Rightarrow> go_error option"
  Int64ObservableGauge :: "string \<Rightarrow> go_error option"
  RegisterCallback :: "go_error option"

definition NewHTTPMetrics :: "MeterBehaviour \<Rightarrow> go_error + HTTPMetrics" where
  "NewHTTPMetrics meter =
     (case Int64Counter meter ''requests.total'' of Some err \<Rightarrow> Inl err | None \<Rightarrow>
      case Int64Counter meter ''requests.errors'' of Some err \<Rightarrow> Inl err | None \<Rightarrow>
      case Int64Histogram meter ''requests.duration'' of Some err \<Rightarrow> Inl err | None \<Rightarrow>
      case Int64Histogram meter ''response.size'' of Some err \<Rightarrow> Inl err | None \<Rightarrow>
      case Int64ObservableGauge meter ''requests.in_flight'' of Some err \<Rightarrow> Inl err | None \<Rightarrow>
      case RegisterCallback meter of Some err \<Rightarrow> Inl err | None \<Rightarrow>
        Inr \<lparr>RequestsTotal = [], RequestsErrors = [], RequestsDuration = [],
             ResponseSize = [], inFlight = 0\<rparr>)"

text \<open>
  The registered callback: \<open>atomic.LoadInt64(&hm.inFlight)\<close>, handed to
  \<open>obs.ObserveInt64\<close>. Its result is the value the gauge reports.
\<close>

definition inFlight_callback :: "HTTPMetrics \<Rightarrow> int" where
  "inFlight_callback hm = sint (inFlight hm)"

definition RecordRequestStart :: "HTTPMetrics \<Rightarrow> string \<Rightarrow> string \<Rightarrow> HTTPMetrics" where
  "RecordRequestStart hm method route =
     hm\<lparr>RequestsTotal := RequestsTotal hm @
           [(1, [(''method'', attribute_String method), (''route'', attribute_String route)])],
        inFlight := inFlight hm + 1\<rparr>"

text \<open>
  Time: \<open>now\<close> and \<open>start\<close> are readings of the clock in nanoseconds, \<open>time.Since(start)\<close>
  is their difference, and \<open>Duration.Milliseconds\<close> is the integer division of the
  nanoseconds by \<open>1e6\<close>, which in Go truncates toward zero.
\<close>

definition Since :: "int \<Rightarrow> int \<Rightarrow> int" where
  "Since now start = now - start"

definition Milliseconds :: "int \<Rightarrow> int" where
  "Milliseconds d = d sdiv 1000000"

definition RecordRequestEnd ::
  "int \<Rightarrow> HTTPMetrics \<Rightarrow> string \<Rightarrow> string \<Rightarrow> int \<Rightarrow> int \<Rightarrow> int \<Rightarrow> HTTPMetrics" where
  "RecordRequestEnd now hm method route statusCode respSize start =
     (let hm1 = hm\<lparr>inFlight := inFlight hm + (- 1)\<rparr>;
          hm2 = (if statusCode \<ge> 400 then
                   hm1\<lparr>RequestsErrors := RequestsErrors hm1 @
                     [(1, [(''method'', attribute_String method),
                           (''route'', attribute_String route),
                           (''status_code'', attribute_Int statusCode)])]\<rparr>
                 else hm1);
          elapsedMs = Milliseconds (Since now start);
          hm3 = hm2\<lparr>RequestsDuration := RequestsDuration hm2 @
                     [(elapsedMs, [(''method'', attribute_String method),
                                   (''route'', attribute_String route),
                                   (''status_code'', attribute_Int statusCode)])]\<rparr>
      in hm3\<lparr>ResponseSize := ResponseSize hm3 @
                [(respSize, [(''method'', attribute_String method),
                             (''route'', attribute_String route),
                             (''status_code'', attribute_Int statusCode)])]\<rparr>)"

text \<open>A sequence of calls on one \<open>HTTPMetrics\<close> value; an end call carries its clock reading.\<close>

datatype HTTPCall =
    CallStart string string
  | CallEnd int string string int int int

fun http_step :: "HTTPCall \<Rightarrow> HTTPMetrics \<Rightarrow> HTTPMetrics" where
  "http_step (CallStart method route) hm = RecordRequestStart hm method route"
| "http_step (CallEnd now method route statusCode respSize start) hm =
     RecordRequestEnd now hm method route statusCode respSize start"

definition http_run :: "HTTPCall list \<Rightarrow> HTTPMetrics \<Rightarrow> HTTPMetrics" where
  "http_run calls hm = fold http_step calls hm"

section \<open>Error classification\<close>

text \<open>
  \<open>classifyError\<close> looks at its argument only through library calls, so an error is
  what those calls return for it:
  \<^item> \<open>is_Canceled\<close>: \<open>errors.Is(err, context.Canceled)\<close>;
  \<^item> \<open>is_DeadlineExceeded\<close>: \<open>errors.Is(err, context.DeadlineExceeded)\<close>;
  \<^item> \<open>as_net_Error\<close>: \<open>errors.As(err, &netErr)\<close> for a \<open>net.Error\<close>, with the result of
    \<open>netErr.Timeout()\<close> when it succeeds;
  \<^item> \<open>message\<close>: \<open>err.Error()\<close>;
  \<^item> \<open>as_PgError\<close>: \<open>errors.As(err, &pgErr)\<close> for a \<open>*pgconn.PgError\<close>, with
    \<open>pgErr.Code\<close> when it succeeds;
  \<^item> \<open>status_FromError\<close>: \<open>status.FromError(err)\<close>, with \<open>s.Code()\<close> when \<open>ok\<close>.
  One error may answer several of them at once. The \<open>nil\<close> error is \<open>None\<close>.
\<close>

type_synonym Code = nat

record ErrorView =
  is_Canceled :: bool
  is_DeadlineExceeded :: bool
  as_net_Error :: "bool option"
  message :: string
  as_PgError :: "string option"
  status_FromError :: "Code option"

text \<open>The constants of \<open>pgerrcode\<close> and of gRPC's \<open>codes\<close> that the function names.\<close>

definition UniqueViolation :: string where
  "UniqueViolation = ''23505''"

definition ForeignKeyViolation :: string where
  "ForeignKeyViolation = ''23503''"

definition InvalidArgument :: Code where
  "InvalidArgument = 3"

definition DeadlineExceeded :: Code where
  "DeadlineExceeded = 4"

definition NotFound :: Code where
  "NotFound = 5"

text \<open>
  \<open>Code.String()\<close> of gRPC: the name of each of the seventeen codes, and
  \<open>Code(n)\<close> with \<open>n\<close> in decimal for any other number.
\<close>

fun FormatInt :: "nat \<Rightarrow> string" where
  "FormatInt n =
     (if n < 10 then [''0123456789'' ! n]
      else FormatInt (n div 10) @ [''0123456789'' ! (n mod 10)])"

declare FormatInt.simps [simp del]

definition Code_String :: "Code \<Rightarrow> string" where
  "Code_String c =
     (if c = 0 then ''OK'' else if c = 1 then ''Canceled'' else if c = 2 then ''Unknown''
      else if c = 3 then ''InvalidArgument'' else if c = 4 then ''DeadlineExceeded''
      else if c = 5 then ''NotFound'' else if c = 6 then ''AlreadyExists''
      else if c = 7 then ''PermissionDenied'' else if c = 8 then ''ResourceExhausted''
      else if c = 9 then ''FailedPrecondition'' else if c = 10 then ''Aborted''
      else if c = 11 then ''OutOfRange'' else if c = 12 then ''Unimplemented''
      else if c = 13 then ''Internal'' else if c = 14 then ''Unavailable''
      else if c = 15 then ''DataLoss'' else if c = 16 then ''Unauthenticated''
      else ''Code('' @ FormatInt c @ '')'')"

text \<open>
  \<open>strings.ToLower\<close> and \<open>strings.Contains\<close>. A string is its bytes. The two needles
  are ASCII, and no character outside \<open>A\<close>..\<open>Z\<close> lowers to one of their letters, so
  lowering the ASCII capitals decides the same containments as Go's Unicode lowering.
\<close>

definition lower_byte :: "char \<Rightarrow> char" where
  "lower_byte c =
     (case map_of (zip ''ABCDEFGHIJKLMNOPQRSTUVWXYZ'' ''abcdefghijklmnopqrstuvwxyz'') c of
        Some l \<Rightarrow> l
      | None \<Rightarrow> c)"

definition ToLower :: "string \<Rightarrow> string" where
  "ToLower s = map lower_byte s"

fun Contains :: "string \<Rightarrow> string \<Rightarrow> bool" where
  "Contains [] substr = (substr = [])"
| "Contains (c # s) substr = (prefix substr (c # s) \<or> Contains s substr)"

definition classifyError :: "ErrorView option \<Rightarrow> string" where
  "classifyError err =
     (case err of
        None \<Rightarrow> []
      | Some e \<Rightarrow>
          if is_Canceled e then ''canceled''
          else if is_DeadlineExceeded e then ''timeout''
          else
            (case as_net_Error e of
               Some timeout \<Rightarrow> if timeout then ''network_timeout'' else ''network''
             | None \<Rightarrow>
                 if Contains (ToLower (message e)) ''parse'' \<or>
                    Contains (ToLower (message e)) ''syntax''
                 then ''invalid_input''
                 else
                   (case as_PgError e of
                      Some code \<Rightarrow>
                        if code = UniqueViolation then ''db_unique_violation''
                        else if code = ForeignKeyViolation then ''db_fk_violation''
                        else ''db_error''
                    | None \<Rightarrow>
                        (case status_FromError e of
                           Some c \<Rightarrow>
                             if c = DeadlineExceeded then ''grpc_timeout''
                             else if c = NotFound then ''grpc_not_found''
                             else if c = InvalidArgument then ''grpc_invalid_arg''
                             else ''grpc_'' @ Code_String c
                         | None \<Rightarrow> ''unknown''))))"

section \<open>Notions used to state the properties\<close>

subsection \<open>Lifecycle\<close>

text \<open>A configuration error is the error \<open>InitMetrics\<close> wraps around a validation failure.\<close>

definition is_config_error :: "go_error option \<Rightarrow> bool" where
  "is_config_error r =
     (case r of Some (Errorf p e) \<Rightarrow> p = ''invalid OTLP metrics config: '' | _ \<Rightarrow> False)"

text \<open>
  The validation rules, as a predicate on the configuration. \<open>violates_checked\<close> has
  the view rule "an empty instrument name or fewer than two boundaries";
  \<open>violates_stated\<close> has the view rule "an empty instrument name, or boundaries that
  are not two or more in ascending order" (ascending in the weakest sense, \<open>sorted\<close>).
\<close>

definition short_view :: "InstrumentViewConfig \<Rightarrow> bool" where
  "short_view hv = (InstrumentName hv = [] \<or> length (Buckets hv) < 2)"

definition violates_checked :: "Config \<Rightarrow> bool" where
  "violates_checked cfg =
     (OTLPEndpoint cfg = [] \<or> ServiceName cfg = [] \<or> Environment cfg = [] \<or>
      PushInterval cfg \<le> 0 \<or> (\<not> OTLPInsecure cfg \<and> OTLPCAFile cfg = []) \<or>
      list_ex short_view (CustomHistogramViews cfg))"

definition unordered_view :: "InstrumentViewConfig \<Rightarrow> bool" where
  "unordered_view hv =
     (InstrumentName hv = [] \<or> length (Buckets hv) < 2 \<or> \<not> sorted (Buckets hv))"

definition violates_stated :: "Config \<Rightarrow> bool" where
  "violates_stated cfg =
     (OTLPEndpoint cfg = [] \<or> ServiceName cfg = [] \<or> Environment cfg = [] \<or>
      PushInterval cfg \<le> 0 \<or> (\<not> OTLPInsecure cfg \<and> OTLPCAFile cfg = []) \<or>
      list_ex unordered_view (CustomHistogramViews cfg))"

text \<open>The number of times a provider's flush and stop has run, read off the trace.\<close>

fun is_flush :: "Event \<Rightarrow> bool" where
  "is_flush (ProviderShutdown mp) = True"
| "is_flush _ = False"

definition flushes :: "Event list \<Rightarrow> nat" where
  "flushes evs = length (filter is_flush evs)"



subsection \<open>HTTP request metrics\<close>

text \<open>
  Matching starts and ends: \<open>pending n calls\<close> scans the calls with \<open>n\<close> requests open.
  A start opens a request, an end closes the most recent open one; the result is the
  number of starts left without a matching end, or \<open>None\<close> when some end has no open
  start to match.
\<close>

fun pending :: "nat \<Rightarrow> HTTPCall list \<Rightarrow> nat option" where
  "pending n [] = Some n"
| "pending n (CallStart method route # calls) = pending (Suc n) calls"
| "pending n (CallEnd now method route statusCode respSize start # calls) =
     (case n of 0 \<Rightarrow> None | Suc k \<Rightarrow> pending k calls)"

subsection \<open>Error classification\<close>

text \<open>
  A message mentions a word case-insensitively when some contiguous part of it lowers
  to the word.
\<close>

definition mentions :: "string \<Rightarrow> string \<Rightarrow> bool" where
  "mentions msg word = (\<exists>t. sublist t msg \<and> ToLower t = word)"

definition context_level :: "ErrorView \<Rightarrow> bool" where
  "context_level e = (is_Canceled e \<or> is_DeadlineExceeded e)"

definition sniffed :: "ErrorView \<Rightarrow> bool" where
  "sniffed e = (mentions (message e) ''parse'' \<or> mentions (message e) ''syntax'')"

section \<open>Concrete inputs\<close>

text \<open>
  Outside worlds: one where every library call succeeds and no environment variable is
  set; one where loading the CA file fails; one with METRICS_SKIP_FLUSH set to "1"; one
  where the provider's flush fails.
\<close>

definition world_ok :: World where
  "world_ok = \<lparr>NewClientTLSFromFile = (\<lambda>path. None),
     otlpmetricgrpc_New = (\<lambda>endpoint creds. None), resource_New = (\<lambda>name env. None),
     Getenv = (\<lambda>key. []), mp_Shutdown = (\<lambda>mp. None)\<rparr>"

definition world_bad_ca :: World where
  "world_bad_ca = world_ok\<lparr>NewClientTLSFromFile :=
     (\<lambda>path. Some (New ''open nonexistent-ca.pem: no such file or directory''))\<rparr>"

definition world_skip_flush :: World where
  "world_skip_flush = world_ok\<lparr>Getenv :=
     (\<lambda>key. if key = ''METRICS_SKIP_FLUSH'' then ''1'' else [])\<rparr>"

definition world_flush_fails :: World where
  "world_flush_fails = world_ok\<lparr>mp_Shutdown :=
     (\<lambda>mp. Some (New ''context deadline exceeded''))\<rparr>"

text \<open>Configurations, built as the package's tests build them.\<close>

definition cfg_ok :: Config where
  "cfg_ok = NewConfig ''localhost:4317'' ''test-service'' ''test''
     [WithPushInterval (10 * Second), WithOTLPInsecure True,
      WithCustomHistogramViews
        [\<lparr>InstrumentName = ''test.histogram'', Buckets = [1, 2, 3]\<rparr>]]"

definition cfg_secure :: Config where
  "cfg_secure = NewConfig ''localhost:4317'' ''test-service'' ''test''
     [WithOTLPInsecure False, WithOTLPCAFile ''nonexistent-ca.pem'']"

definition cfg_descending :: Config where
  "cfg_descending = NewConfig ''localhost:4317'' ''test-service'' ''test''
     [WithCustomHistogramViews
        [\<lparr>InstrumentName = ''test.histogram'', Buckets = [3, 2, 1]\<rparr>]]"

definition cfg_no_endpoint :: Config where
  "cfg_no_endpoint = NewConfig [] ''test-service'' ''test'' []"

text \<open>The provider that \<open>InitMetrics\<close> builds from \<open>cfg_ok\<close>.\<close>

definition mp_ok :: MeterProvider where
  "mp_ok = \<lparr>mp_exporter =
       \<lparr>exp_endpoint = ''localhost:4317'', exp_credentials = InsecureCredentials\<rparr>,
     mp_interval = 10 * Second,
     mp_resource =
       \<lparr>res_service_name = ''test-service'', res_deployment_environment = ''test''\<rparr>,
     mp_views = [\<lparr>view_instrument = ''test.histogram'', view_boundaries = [1, 2, 3]\<rparr>]\<rparr>"

text \<open>A meter on which every creation succeeds, and the value the constructor then returns.\<close>

definition meter_ok :: MeterBehaviour where
  "meter_ok = \<lparr>Int64Counter = (\<lambda>name. None), Int64Histogram = (\<lambda>name. None),
     Int64ObservableGauge = (\<lambda>name. None), RegisterCallback = None\<rparr>"

definition hm_new :: HTTPMetrics where
  "hm_new = \<lparr>RequestsTotal = [], RequestsErrors = [], RequestsDuration = [],
     ResponseSize = [], inFlight = 0\<rparr>"

text \<open>
  Errors, as the library calls see them: \<open>context.Canceled\<close>;
  \<open>context.DeadlineExceeded\<close>, which also is a \<open>net.Error\<close> whose \<open>Timeout()\<close> is true; the
  test's \<open>dummyNetError\<close>; a plain \<open>errors.New\<close>; a \<open>*pgconn.PgError\<close> with a code and a
  message; and a gRPC \<open>status.Error\<close>.
\<close>

definition err_Canceled :: ErrorView where
  "err_Canceled = \<lparr>is_Canceled = True, is_DeadlineExceeded = False, as_net_Error = None,
     message = ''context canceled'', as_PgError = None, status_FromError = None\<rparr>"

definition err_DeadlineExceeded :: ErrorView where
  "err_DeadlineExceeded = \<lparr>is_Canceled = False, is_DeadlineExceeded = True,
     as_net_Error = Some True, message = ''context deadline exceeded'', as_PgError = None,
     status_FromError = None\<rparr>"

definition dummyNetError :: "string \<Rightarrow> bool \<Rightarrow> ErrorView" where
  "dummyNetError msg timeout = \<lparr>is_Canceled = False, is_DeadlineExceeded = False,
     as_net_Error = Some timeout, message = msg, as_PgError = None, status_FromError = None\<rparr>"

definition errors_New :: "string \<Rightarrow> ErrorView" where
  "errors_New msg = \<lparr>is_Canceled = False, is_DeadlineExceeded = False, as_net_Error = None,
     message = msg, as_PgError = None, status_FromError = None\<rparr>"

definition PgError :: "string \<Rightarrow> string \<Rightarrow> ErrorView" where
  "PgError code msg = \<lparr>is_Canceled = False, is_DeadlineExceeded = False, as_net_Error = None,
     message = '': '' @ msg @ '' (SQLSTATE '' @ code @ '')'', as_PgError = Some code,
     status_FromError = None\<rparr>"

definition status_Error :: "Code \<Rightarrow> string \<Rightarrow> ErrorView" where
  "status_Error c msg = \<lparr>is_Canceled = False, is_DeadlineExceeded = False, as_net_Error = None,
     message = ''rpc error: code = '' @ Code_String c @ '' desc = '' @ msg, as_PgError = None,
     status_FromError = Some c\<rparr>"

section \<open>Evaluation rules\<close>

lemmas lifecycle_defs = InitMetrics_def initBody_def createOTLPExporter_def newExporter_def
  ShutdownMetrics_def shutdownBody_def validateConfig_def NewConfig_def WithPushInterval_def
  WithCustomHistogramViews_def WithOTLPInsecure_def WithOTLPCAFile_def Second_def init_state_def
  world_ok_def world_bad_ca_def world_skip_flush_def world_flush_fails_def
  cfg_ok_def cfg_secure_def cfg_descending_def cfg_no_endpoint_def mp_ok_def run_def
  GetMeter_def GetMeterProvider_Meter_def Let_def

lemma cfg_ok_valid: "validateConfig cfg_ok = None"
  by (simp add: lifecycle_defs)

lemma cfg_secure_valid: "validateConfig cfg_secure = None"
  by (simp add: lifecycle_defs)

lemma init_ok:
  "InitMetrics world_ok cfg_ok init_state =
     (\<lparr>meterProvider = Some mp_ok, shutdownFunc = Some mp_ok, initOnce = True,
       shutdownOnce = False, initialized = True, otel_global = Some mp_ok,
       trace = [CreateExporter ''localhost:4317'' InsecureCredentials,
                CreateResource ''test-service'' ''test'', CreateMeterProvider mp_ok,
                SetMeterProvider mp_ok, LogInitialized ''localhost:4317'' True]\<rparr>, None)"
  by (simp add: lifecycle_defs)

section \<open>Validation\<close>

lemma validateViews_None: "validateViews hvs = None \<longleftrightarrow> \<not> list_ex short_view hvs"
  by (induction hvs) (auto simp: short_view_def)

lemma validateConfig_None: "validateConfig cfg = None \<longleftrightarrow> \<not> violates_checked cfg"
  by (auto simp: validateConfig_def violates_checked_def validateViews_None)

lemma rejected_unchanged:
  "validateConfig cfg = Some err \<Longrightarrow>
     InitMetrics w cfg st = (st, Some (Errorf ''invalid OTLP metrics config: '' err))"
  by (simp add: InitMetrics_def)

text \<open>
  The body of \<open>initOnce\<close> touches neither one-shot guard, runs no flush, and never
  returns a configuration error.
\<close>

lemma initBody_cases:
  "initBody w cfg st = (st', r) \<Longrightarrow>
     initOnce st' = initOnce st \<and> shutdownOnce st' = shutdownOnce st \<and>
     flushes (trace st') = flushes (trace st) \<and> \<not> is_config_error r"
  by (auto simp: initBody_def createOTLPExporter_def newExporter_def Let_def flushes_def
      is_config_error_def split: option.splits sum.splits prod.splits if_splits)

lemma config_error_rejected:
  "is_config_error (snd (InitMetrics w cfg st)) \<longleftrightarrow> validateConfig cfg \<noteq> None"
proof (cases "validateConfig cfg")
  case None
  show ?thesis
  proof (cases "initOnce st")
    case True
    with None show ?thesis by (simp add: InitMetrics_def is_config_error_def)
  next
    case False
    obtain st' r where b: "initBody w cfg (st\<lparr>initOnce := True\<rparr>) = (st', r)"
      by (cases "initBody w cfg (st\<lparr>initOnce := True\<rparr>)")
    from initBody_cases[OF b] have "\<not> is_config_error r" by simp
    with None False b show ?thesis by (simp add: InitMetrics_def)
  qed
next
  case (Some err)
  then show ?thesis by (simp add: InitMetrics_def is_config_error_def)
qed

text \<open>
  C5. \<open>InitMetrics\<close> returns a configuration error exactly when the configuration
  violates a validation rule. As stated, with the view rule "Buckets are not two or more
  ascending boundaries", this fails: the code counts the boundaries and never looks at
  their order, so a view with the boundaries 3, 2, 1 violates the stated rule and is
  accepted.
\<close>

theorem descending_buckets_accepted:
  "violates_stated cfg_descending \<and>
   \<not> is_config_error (snd (InitMetrics world_ok cfg_descending init_state)) \<and>
   snd (InitMetrics world_ok cfg_descending init_state) = None"
  by (simp add: lifecycle_defs violates_stated_def unordered_view_def is_config_error_def)

text \<open>
  C5, amended. \<open>InitMetrics\<close> returns a configuration error exactly when the
  configuration violates one of the rules the code checks: empty endpoint, empty service
  name, empty environment, push interval at most 0, insecure=false with an empty CA
  file, a histogram view with an empty instrument name, or a histogram view with fewer
  than two boundaries. This holds in every state and every outside world; in particular
  a configuration that satisfies all the rules passes validation.
\<close>

theorem InitMetrics_config_error_iff:
  "is_config_error (snd (InitMetrics w cfg st)) = violates_checked cfg"
  by (simp add: config_error_rejected validateConfig_None)

text \<open>
  C7. For every invalid configuration (one that violates a rule the code checks),
  \<open>InitMetrics\<close> returns a configuration error on every call, whether or not the
  one-shot guard has fired, and leaves the whole global state unchanged: the initialized
  flag, the provider, the shutdown hook, both guards, and the trace of side effects.
\<close>

theorem InitMetrics_invalid_unchanged:
  "violates_checked cfg \<Longrightarrow>
     fst (InitMetrics w cfg st) = st \<and> is_config_error (snd (InitMetrics w cfg st))"
proof -
  assume "violates_checked cfg"
  then obtain err where "validateConfig cfg = Some err"
    using validateConfig_None[of cfg] by (cases "validateConfig cfg") auto
  then show ?thesis by (simp add: rejected_unchanged is_config_error_def)
qed

text \<open>
  The witness: the configuration without an endpoint, once in the fresh state and once
  after a successful initialization has fired the guard.
\<close>

theorem InitMetrics_invalid_unchanged_witness:
  "violates_checked cfg_no_endpoint \<and>
   fst (InitMetrics world_ok cfg_no_endpoint init_state) = init_state \<and>
   is_config_error (snd (InitMetrics world_ok cfg_no_endpoint init_state)) \<and>
   initOnce (fst (InitMetrics world_ok cfg_ok init_state)) \<and>
   fst (InitMetrics world_ok cfg_no_endpoint (fst (InitMetrics world_ok cfg_ok init_state))) =
     fst (InitMetrics world_ok cfg_ok init_state) \<and>
   is_config_error
     (snd (InitMetrics world_ok cfg_no_endpoint (fst (InitMetrics world_ok cfg_ok init_state))))"
proof -
  have v: "violates_checked cfg_no_endpoint"
    by (simp add: violates_checked_def cfg_no_endpoint_def NewConfig_def)
  have f: "initOnce (fst (InitMetrics world_ok cfg_ok init_state))"
    by (simp add: init_ok)
  show ?thesis
    using v f InitMetrics_invalid_unchanged [OF v, of world_ok init_state]
      InitMetrics_invalid_unchanged [OF v, of world_ok "fst (InitMetrics world_ok cfg_ok init_state)"]
    by simp
qed

section \<open>One-shot initialization\<close>

lemma initOnce_fired:
  "validateConfig cfg = None \<Longrightarrow> initOnce st \<Longrightarrow> InitMetrics w cfg st = (st, None)"
  by (simp add: InitMetrics_def)

lemma initOnce_fires:
  "validateConfig cfg = None \<Longrightarrow> initOnce (fst (InitMetrics w cfg st))"
  using initBody_cases[of w cfg "st\<lparr>initOnce := True\<rparr>"]
  by (cases "initBody w cfg (st\<lparr>initOnce := True\<rparr>)") (auto simp: InitMetrics_def)

lemma initOnce_kept_by_init: "initOnce st \<Longrightarrow> initOnce (fst (InitMetrics w cfg st))"
  by (auto simp: InitMetrics_def split: option.splits)

lemma shutdownBody_fields:
  "shutdownBody w st = (st', r) \<Longrightarrow>
     initOnce st' = initOnce st \<and> shutdownOnce st' = shutdownOnce st \<and>
     meterProvider st' = meterProvider st \<and> otel_global st' = otel_global st \<and>
     shutdownFunc st' = shutdownFunc st"
  by (auto simp: shutdownBody_def split: option.splits if_splits)

lemma initOnce_kept_by_shutdown: "initOnce (fst (ShutdownMetrics w st)) = initOnce st"
  using shutdownBody_fields[of w "st\<lparr>shutdownOnce := True\<rparr>"]
  by (cases "shutdownBody w (st\<lparr>shutdownOnce := True\<rparr>)") (auto simp: ShutdownMetrics_def)

lemma initOnce_kept_by_step: "initOnce st \<Longrightarrow> initOnce (step c st)"
  by (cases c) (simp_all add: initOnce_kept_by_init initOnce_kept_by_shutdown)

lemma initOnce_kept_by_run: "initOnce st \<Longrightarrow> initOnce (run calls st)"
  unfolding run_def by (induction calls arbitrary: st) (simp_all add: initOnce_kept_by_step)

text \<open>
  C1. Every call of \<open>InitMetrics\<close> after the first performs no construction side
  effects and returns the outcome of the first attempt: the same error if its
  construction failed, success if it succeeded. The error half fails. \<open>initErr\<close> is a
  local variable of each call, set only inside the body of \<open>initOnce\<close>; a later call
  skips the body and returns \<open>nil\<close>. Below, the CA file cannot be loaded: the first call
  returns the wrapped construction error, the second call with the same configuration
  returns \<open>nil\<close>, and nothing is initialized.
\<close>

theorem InitMetrics_first_error_not_repeated:
  "snd (InitMetrics world_bad_ca cfg_secure init_state) =
     Some (Errorf ''failed to create OTLP exporter: '' (Errorf ''failed to load CA file: ''
       (New ''open nonexistent-ca.pem: no such file or directory''))) \<and>
   snd (InitMetrics world_bad_ca cfg_secure
          (fst (InitMetrics world_bad_ca cfg_secure init_state))) = None \<and>
   \<not> initialized (fst (InitMetrics world_bad_ca cfg_secure
          (fst (InitMetrics world_bad_ca cfg_secure init_state))))"
  by (simp add: lifecycle_defs)

text \<open>
  C1, amended. Once a call of \<open>InitMetrics\<close> with a valid configuration has been made
  (in any state \<open>st\<close>, whatever its outcome), every later call with a valid configuration,
  after any calls in between, in any outside world, performs no construction side
  effects, leaves the global state unchanged (trace included) and returns \<open>nil\<close>. So
  success is repeated after a successful first call, and a construction error of the
  first attempt is returned by the first call only.
\<close>

theorem InitMetrics_later_calls:
  assumes "validateConfig cfg = None" and "validateConfig cfg' = None"
    and "st1 = fst (InitMetrics w cfg st)" and "st2 = run calls st1"
  shows "InitMetrics w' cfg' st2 = (st2, None)"
proof -
  have "initOnce st1" using assms(1,3) by (simp add: initOnce_fires)
  then have "initOnce st2" using assms(4) by (simp add: initOnce_kept_by_run)
  then show ?thesis using assms(2) by (rule initOnce_fired[rotated])
qed

text \<open>
  The witness: a successful first call, a shutdown in between, and a later call in a
  world where its own construction would have failed.
\<close>

theorem InitMetrics_later_calls_witness:
  "validateConfig cfg_ok = None \<and> validateConfig cfg_secure = None \<and>
   snd (InitMetrics world_ok cfg_ok init_state) = None \<and>
   InitMetrics world_bad_ca cfg_secure
     (run [CallShutdownMetrics world_ok] (fst (InitMetrics world_ok cfg_ok init_state))) =
     (run [CallShutdownMetrics world_ok] (fst (InitMetrics world_ok cfg_ok init_state)), None)"
  using InitMetrics_later_calls [OF cfg_ok_valid cfg_secure_valid refl refl,
      of world_bad_ca "[CallShutdownMetrics world_ok]" world_ok init_state]
  by (simp add: cfg_ok_valid cfg_secure_valid init_ok)

section \<open>One-shot shutdown\<close>

lemma shutdownOnce_fired: "shutdownOnce st \<Longrightarrow> ShutdownMetrics w st = (st, None)"
  by (simp add: ShutdownMetrics_def)

lemma shutdownOnce_fires: "shutdownOnce (fst (ShutdownMetrics w st))"
  using shutdownBody_fields[of w "st\<lparr>shutdownOnce := True\<rparr>"]
  by (cases "shutdownBody w (st\<lparr>shutdownOnce := True\<rparr>)") (auto simp: ShutdownMetrics_def)

lemma shutdown_uninitialized:
  "\<not> initialized st \<Longrightarrow> ShutdownMetrics w st = (st\<lparr>shutdownOnce := True\<rparr>, None)"
  by (cases st) (auto simp: ShutdownMetrics_def shutdownBody_def)


lemma init_flushes:
  "flushes (trace (fst (InitMetrics w cfg st))) = flushes (trace st) \<and>
   shutdownOnce (fst (InitMetrics w cfg st)) = shutdownOnce st"
proof (cases "validateConfig cfg = None \<and> \<not> initOnce st")
  case True
  obtain st' r where b: "initBody w cfg (st\<lparr>initOnce := True\<rparr>) = (st', r)"
    by (cases "initBody w cfg (st\<lparr>initOnce := True\<rparr>)")
  from initBody_cases[OF b] True b show ?thesis by (simp add: InitMetrics_def)
next
  case False
  then show ?thesis by (auto simp: InitMetrics_def split: option.splits)
qed

text \<open>Once the shutdown guard has fired, no call flushes and the guard stays fired.\<close>

lemma step_after_guard:
  "shutdownOnce st \<Longrightarrow>
     shutdownOnce (step c st) \<and> flushes (trace (step c st)) = flushes (trace st)"
  by (cases c) (simp_all add: init_flushes shutdownOnce_fired)

lemma run_after_guard:
  "shutdownOnce st \<Longrightarrow>
     shutdownOnce (run calls st) \<and> flushes (trace (run calls st)) = flushes (trace st)"
  unfolding run_def
proof (induction calls arbitrary: st)
  case Nil
  then show ?case by simp
next
  case (Cons c calls)
  from step_after_guard[OF Cons.prems, of c] Cons.IH[of "step c st"] show ?case by simp
qed





text \<open>
  C8. When the first \<open>ShutdownMetrics\<close> call after a successful initialization meets a
  flush failure, the error is returned to the caller and the state is still marked
  uninitialized. The call meets the flush when the shutdown guard has not fired, the
  state is initialized with its shutdown hook set, and METRICS_SKIP_FLUSH is not "1";
  the flush then fails with \<open>err\<close>. The trace shows the flush and the logged error.
\<close>

theorem ShutdownMetrics_flush_error:
  assumes "\<not> shutdownOnce st" and "initialized st" and "shutdownFunc st = Some mp"
    and "Getenv w ''METRICS_SKIP_FLUSH'' \<noteq> ''1''" and "mp_Shutdown w mp = Some err"
  shows "snd (ShutdownMetrics w st) = Some err \<and>
         \<not> initialized (fst (ShutdownMetrics w st)) \<and>
         trace (fst (ShutdownMetrics w st)) =
           trace st @ [ProviderShutdown mp, LogShutdownError err]"
  using assms by (simp add: ShutdownMetrics_def shutdownBody_def)

text \<open>The witness: the state right after a successful \<open>InitMetrics\<close>, and a failing flush.\<close>

theorem ShutdownMetrics_flush_error_witness:
  "InitMetrics world_ok cfg_ok init_state = (fst (InitMetrics world_ok cfg_ok init_state), None) \<and>
   initialized (fst (InitMetrics world_ok cfg_ok init_state)) \<and>
   snd (ShutdownMetrics world_flush_fails (fst (InitMetrics world_ok cfg_ok init_state))) =
     Some (New ''context deadline exceeded'') \<and>
   \<not> initialized
     (fst (ShutdownMetrics world_flush_fails (fst (InitMetrics world_ok cfg_ok init_state))))"
proof -
  let ?st = "fst (InitMetrics world_ok cfg_ok init_state)"
  have a: "\<not> shutdownOnce ?st" "initialized ?st" "shutdownFunc ?st = Some mp_ok"
    by (simp_all add: init_ok)
  have b: "Getenv world_flush_fails ''METRICS_SKIP_FLUSH'' \<noteq> ''1''"
    "mp_Shutdown world_flush_fails mp_ok = Some (New ''context deadline exceeded'')"
    by (simp_all add: world_flush_fails_def world_ok_def)
  show ?thesis
    using ShutdownMetrics_flush_error [OF a b] a by (simp add: init_ok)
qed

text \<open>
  C10. If \<open>ShutdownMetrics\<close> is called before any successful \<open>InitMetrics\<close> (so in a
  state \<open>st\<close> that is not initialized), the one-shot shutdown guard is consumed for good:
  in every later state \<open>st2\<close>, reached by any calls and so also after a successful
  \<open>InitMetrics\<close>, \<open>ShutdownMetrics\<close> returns \<open>nil\<close> and changes nothing, so it runs no
  flush and does not clear the initialized flag; and no flush has run in between.
\<close>

theorem ShutdownMetrics_guard_consumed:
  assumes "\<not> initialized st" and "st1 = fst (ShutdownMetrics w st)" and "st2 = run calls st1"
  shows "ShutdownMetrics w' st2 = (st2, None) \<and> flushes (trace st2) = flushes (trace st)"
proof -
  have "shutdownOnce st1" using assms(2) by (simp add: shutdownOnce_fires)
  then have "shutdownOnce st2" "flushes (trace st2) = flushes (trace st1)"
    using assms(3) by (simp_all add: run_after_guard)
  moreover have "trace st1 = trace st"
    using assms(1,2) by (simp add: shutdown_uninitialized)
  ultimately show ?thesis by (simp add: shutdownOnce_fired)
qed

text \<open>
  The witness: shutdown in the fresh state, then a successful initialization; the
  state is initialized, and a shutdown leaves it so without any flush.
\<close>

theorem ShutdownMetrics_guard_consumed_witness:
  "\<not> initialized init_state \<and>
   snd (InitMetrics world_ok cfg_ok (fst (ShutdownMetrics world_ok init_state))) = None \<and>
   initialized (run [CallInitMetrics world_ok cfg_ok] (fst (ShutdownMetrics world_ok init_state))) \<and>
   ShutdownMetrics world_ok
     (run [CallInitMetrics world_ok cfg_ok] (fst (ShutdownMetrics world_ok init_state))) =
     (run [CallInitMetrics world_ok cfg_ok] (fst (ShutdownMetrics world_ok init_state)), None) \<and>
   flushes (trace (run [CallInitMetrics world_ok cfg_ok]
     (fst (ShutdownMetrics world_ok init_state)))) = 0"
proof -
  have a: "\<not> initialized init_state" by (simp add: init_state_def)
  have b: "snd (InitMetrics world_ok cfg_ok (fst (ShutdownMetrics world_ok init_state))) = None"
    "initialized (run [CallInitMetrics world_ok cfg_ok] (fst (ShutdownMetrics world_ok init_state)))"
    by (simp_all add: lifecycle_defs)
  have c: "flushes (trace init_state) = 0" by (simp add: init_state_def flushes_def)
  show ?thesis
    using a b c ShutdownMetrics_guard_consumed [OF a refl refl, of world_ok
        "[CallInitMetrics world_ok cfg_ok]" world_ok]
    by simp
qed

section \<open>Meter access\<close>









section \<open>HTTP request metrics: the in-flight gauge\<close>

lemma NewHTTPMetrics_Inr: "NewHTTPMetrics meter = Inr hm \<Longrightarrow> hm = hm_new"
  by (auto simp: NewHTTPMetrics_def hm_new_def split: option.splits)

lemma NewHTTPMetrics_ok: "NewHTTPMetrics meter_ok = Inr hm_new"
  by (simp add: NewHTTPMetrics_def hm_new_def meter_ok_def)

lemma inFlight_Start: "inFlight (RecordRequestStart hm m r) = inFlight hm + 1"
  by (simp add: RecordRequestStart_def)

lemma inFlight_End: "inFlight (RecordRequestEnd now hm m r sc sz st) = inFlight hm - 1"
  by (simp add: RecordRequestEnd_def Let_def)

text \<open>With every end matched, the counter holds the number of open requests.\<close>

lemma pending_inFlight:
  "pending k calls = Some n \<Longrightarrow> inFlight hm = of_nat k \<Longrightarrow>
     inFlight (http_run calls hm) = of_nat n"
  unfolding http_run_def
proof (induction k calls arbitrary: hm rule: pending.induct)
  case (1 j)
  then show ?case by simp
next
  case (2 j m r calls)
  then show ?case by (simp add: inFlight_Start)
next
  case (3 j now m r sc sz st calls)
  show ?case
  proof (cases j)
    case 0
    with "3.prems" show ?thesis by simp
  next
    case (Suc i)
    with "3.prems" have "pending i calls = Some n"
      and "inFlight (RecordRequestEnd now hm m r sc sz st) = of_nat i"
      by (simp_all add: inFlight_End)
    from "3.IH"[OF Suc this] show ?thesis by simp
  qed
qed

lemma sint_of_nat_small: "n < 2 ^ 63 \<Longrightarrow> sint (of_nat n :: 64 word) = int n"
  by (simp add: signed_of_nat signed_take_bit_int_eq_self)

text \<open>
  C3. For every sequence of \<open>RecordRequestStart\<close> and \<open>RecordRequestEnd\<close> calls, the
  value the callback samples is never negative and equals the number of starts without
  a matching end. As stated, for every sequence, this fails: nothing stops an end
  without a start, and the counter is decremented all the same. A single end on a new
  \<open>HTTPMetrics\<close> value makes the callback observe -1, where no start is unmatched.
\<close>

theorem inFlight_negative:
  "NewHTTPMetrics meter_ok = Inr hm_new \<and>
   inFlight_callback (http_run [CallEnd 0 ''GET'' ''/users'' 200 512 0] hm_new) = - 1"
  by (simp add: NewHTTPMetrics_ok http_run_def inFlight_callback_def hm_new_def
      RecordRequestEnd_def Let_def)

text \<open>
  C3, amended. For every sequence of calls on a new \<open>HTTPMetrics\<close> value in which every
  end matches an earlier start, the value the callback samples is not negative and equals
  the number \<open>n\<close> of starts without a matching end (as long as \<open>n\<close> fits the \<open>int64\<close>).
\<close>

theorem inFlight_matched:
  assumes "NewHTTPMetrics meter = Inr hm" and "pending 0 calls = Some n" and "n < 2 ^ 63"
  shows "inFlight_callback (http_run calls hm) = int n \<and>
         0 \<le> inFlight_callback (http_run calls hm)"
proof -
  have "inFlight hm = of_nat 0"
    using assms(1) by (auto dest: NewHTTPMetrics_Inr simp: hm_new_def)
  from pending_inFlight[OF assms(2) this] assms(3) show ?thesis
    by (simp add: inFlight_callback_def sint_of_nat_small)
qed

text \<open>The witness: two starts and one end leave one request in flight.\<close>

theorem inFlight_matched_witness:
  "NewHTTPMetrics meter_ok = Inr hm_new \<and>
   pending 0 [CallStart ''GET'' ''/users'', CallStart ''POST'' ''/login'',
              CallEnd 10000000 ''GET'' ''/users'' 200 512 0] = Some 1 \<and>
   (1::nat) < 2 ^ 63 \<and>
   inFlight_callback (http_run [CallStart ''GET'' ''/users'', CallStart ''POST'' ''/login'',
              CallEnd 10000000 ''GET'' ''/users'' 200 512 0] hm_new) = 1"
proof -
  have p: "pending 0 [CallStart ''GET'' ''/users'', CallStart ''POST'' ''/login'',
              CallEnd 10000000 ''GET'' ''/users'' 200 512 0] = Some 1"
    by simp
  have b: "(1::nat) < 2 ^ 63" by simp
  show ?thesis
    using inFlight_matched [OF NewHTTPMetrics_ok p b] p NewHTTPMetrics_ok by simp
qed

section \<open>HTTP request metrics: the end of a request\<close>

text \<open>\<open>Milliseconds\<close> truncates toward zero.\<close>

lemma Milliseconds_truncates: "Milliseconds d = sgn d * (\<bar>d\<bar> div 1000000)"
  by (simp add: Milliseconds_def signed_divide_int_def)

lemma Milliseconds_nonneg:
  "0 \<le> d \<Longrightarrow> Milliseconds d * 1000000 \<le> d \<and> d < (Milliseconds d + 1) * 1000000"
proof (cases "d = 0")
  case True
  then show ?thesis by (simp add: Milliseconds_def)
next
  case False
  assume "0 \<le> d"
  with False have "Milliseconds d = d div 1000000" by (simp add: Milliseconds_truncates)
  then show ?thesis by presburger
qed

text \<open>Read as a signed number, the counter goes down by one unless it is at the least \<open>int64\<close>.\<close>

lemma sint_dec: "sint (x :: 64 word) \<noteq> - (2 ^ 63) \<Longrightarrow> sint (x - 1) = sint x - 1"
proof -
  assume a: "sint x \<noteq> - (2 ^ 63)"
  have "- (2 ^ 63) \<le> sint x" "sint x < 2 ^ 63"
    using sint_ge[of x] sint_lt[of x] by simp_all
  with a have "- (2 ^ 63) \<le> sint x - 1" "sint x - 1 < 2 ^ 63" by simp_all
  then have "signed_take_bit 63 (sint x - 1) = sint x - 1"
    by (simp add: signed_take_bit_int_eq_self)
  then show ?thesis by (simp add: sint_word_ariths)
qed

lemma inFlight_End_observed:
  "inFlight_callback hm \<noteq> - (2 ^ 63) \<Longrightarrow>
     inFlight_callback (RecordRequestEnd now hm m r sc sz st) = inFlight_callback hm - 1"
  by (simp add: inFlight_callback_def inFlight_End sint_dec)


section \<open>Error classification: the cascade\<close>

lemma Contains_sublist: "Contains s substr \<longleftrightarrow> sublist substr s"
  by (induction s) (auto simp: sublist_Cons_right)

text \<open>The code's test, lowering the message and searching it, decides \<open>mentions\<close>.\<close>

lemma mentions_code: "mentions msg word \<longleftrightarrow> Contains (ToLower msg) word"
proof
  assume "mentions msg word"
  then obtain t where "sublist t msg" "ToLower t = word" by (auto simp: mentions_def)
  then show "Contains (ToLower msg) word"
    by (auto simp: Contains_sublist ToLower_def intro: map_mono_sublist)
next
  assume "Contains (ToLower msg) word"
  then have "sublist word (map lower_byte msg)" by (simp add: Contains_sublist ToLower_def)
  from sublist_map_rightE[OF this] show "mentions msg word"
    by (auto simp: mentions_def ToLower_def)
qed

lemmas classify_defs = classifyError_def ToLower_def lower_byte_def context_level_def
  sniffed_def mentions_code
  err_Canceled_def err_DeadlineExceeded_def dummyNetError_def errors_New_def PgError_def
  status_Error_def Code_String_def UniqueViolation_def ForeignKeyViolation_def
  InvalidArgument_def DeadlineExceeded_def NotFound_def

text \<open>
  C2. \<open>classifyError\<close> is decided by the first matching rule of a fixed cascade:
  \<open>nil\<close> gives the empty string; a cancellation "canceled"; a context deadline "timeout";
  a network error "network_timeout" when its timeout flag is set and "network"
  otherwise; a message that mentions "parse" or "syntax" case-insensitively
  "invalid_input"; a database error code "db_unique_violation", "db_fk_violation" or
  "db_error"; an RPC status code "grpc_timeout", "grpc_not_found", "grpc_invalid_arg" or
  "grpc_" followed by the code's name; anything else "unknown". Each rule applies when
  no earlier one does, whatever the later ones would say: context checks outrank network
  checks, which outrank message sniffing, which outranks the database check, which
  outranks the RPC check.
\<close>

theorem classifyError_cascade:
  "classifyError None = [] \<and>
   (is_Canceled a \<longrightarrow> classifyError (Some a) = ''canceled'') \<and>
   (\<not> is_Canceled b \<and> is_DeadlineExceeded b \<longrightarrow> classifyError (Some b) = ''timeout'') \<and>
   (\<not> context_level c \<and> as_net_Error c = Some t \<longrightarrow>
      classifyError (Some c) = (if t then ''network_timeout'' else ''network'')) \<and>
   (\<not> context_level d \<and> as_net_Error d = None \<and> sniffed d \<longrightarrow>
      classifyError (Some d) = ''invalid_input'') \<and>
   (\<not> context_level f \<and> as_net_Error f = None \<and> \<not> sniffed f \<and>
    as_PgError f = Some code \<longrightarrow>
      classifyError (Some f) =
        (if code = UniqueViolation then ''db_unique_violation''
         else if code = ForeignKeyViolation then ''db_fk_violation'' else ''db_error'')) \<and>
   (\<not> context_level g \<and> as_net_Error g = None \<and> \<not> sniffed g \<and> as_PgError g = None \<and>
    status_FromError g = Some k \<longrightarrow>
      classifyError (Some g) =
        (if k = DeadlineExceeded then ''grpc_timeout''
         else if k = NotFound then ''grpc_not_found''
         else if k = InvalidArgument then ''grpc_invalid_arg''
         else ''grpc_'' @ Code_String k)) \<and>
   (\<not> context_level h \<and> as_net_Error h = None \<and> \<not> sniffed h \<and> as_PgError h = None \<and>
    status_FromError h = None \<longrightarrow>
      classifyError (Some h) = ''unknown'')"
  by (simp add: classifyError_def context_level_def sniffed_def mentions_code)

text \<open>
  The witness, with errors that answer several checks at once:
  \<open>context.DeadlineExceeded\<close> is also a network timeout and is classified "timeout"; a
  network error whose message mentions "parse" is classified "network"; a database error
  whose message mentions "SYNTAX" is classified "invalid_input". The others are the
  errors of the package's own test.
\<close>

theorem classifyError_cascade_witness:
  "classifyError None = [] \<and>
   is_Canceled err_Canceled \<and> classifyError (Some err_Canceled) = ''canceled'' \<and>
   is_DeadlineExceeded err_DeadlineExceeded \<and>
   as_net_Error err_DeadlineExceeded = Some True \<and>
   classifyError (Some err_DeadlineExceeded) = ''timeout'' \<and>
   sniffed (dummyNetError ''failed to parse address'' False) \<and>
   classifyError (Some (dummyNetError ''failed to parse address'' False)) = ''network'' \<and>
   classifyError (Some (dummyNetError ''network issue'' True)) = ''network_timeout'' \<and>
   as_PgError (PgError ''42601'' ''SYNTAX error near unexpected token'') = Some ''42601'' \<and>
   classifyError (Some (PgError ''42601'' ''SYNTAX error near unexpected token'')) =
     ''invalid_input'' \<and>
   classifyError (Some (PgError ''23505'' ''duplicate key'')) = ''db_unique_violation'' \<and>
   classifyError (Some (status_Error 13 ''internal error occurred'')) = ''grpc_Internal'' \<and>
   classifyError (Some (errors_New ''an unexpected error occurred'')) = ''unknown''"
proof -
  have hyps:
    "is_Canceled err_Canceled"
    "\<not> is_Canceled err_DeadlineExceeded \<and> is_DeadlineExceeded err_DeadlineExceeded"
    "as_net_Error err_DeadlineExceeded = Some True"
    "\<not> context_level (dummyNetError ''failed to parse address'' False) \<and>
       as_net_Error (dummyNetError ''failed to parse address'' False) = Some False"
    "sniffed (dummyNetError ''failed to parse address'' False)"
    "\<not> context_level (PgError ''42601'' ''SYNTAX error near unexpected token'') \<and>
       as_net_Error (PgError ''42601'' ''SYNTAX error near unexpected token'') = None \<and>
       sniffed (PgError ''42601'' ''SYNTAX error near unexpected token'')"
    "as_PgError (PgError ''42601'' ''SYNTAX error near unexpected token'') = Some ''42601''"
    "\<not> context_level (PgError ''23505'' ''duplicate key'') \<and>
       as_net_Error (PgError ''23505'' ''duplicate key'') = None \<and>
       \<not> sniffed (PgError ''23505'' ''duplicate key'') \<and>
       as_PgError (PgError ''23505'' ''duplicate key'') = Some ''23505''"
    "\<not> context_level (status_Error 13 ''internal error occurred'') \<and>
       as_net_Error (status_Error 13 ''internal error occurred'') = None \<and>
       \<not> sniffed (status_Error 13 ''internal error occurred'') \<and>
       as_PgError (status_Error 13 ''internal error occurred'') = None \<and>
       status_FromError (status_Error 13 ''internal error occurred'') = Some 13"
    "\<not> context_level (errors_New ''an unexpected error occurred'') \<and>
       as_net_Error (errors_New ''an unexpected error occurred'') = None \<and>
       \<not> sniffed (errors_New ''an unexpected error occurred'') \<and>
       as_PgError (errors_New ''an unexpected error occurred'') = None \<and>
       status_FromError (errors_New ''an unexpected error occurred'') = None"
    by (simp_all add: classify_defs)
  have more: "classifyError (Some (dummyNetError ''network issue'' True)) = ''network_timeout''"
    by (simp add: classify_defs)
  have names: "Code_String 13 = ''Internal''" "(13::nat) \<noteq> DeadlineExceeded"
    "(13::nat) \<noteq> NotFound" "(13::nat) \<noteq> InvalidArgument" "''23505'' = UniqueViolation"
    by (simp_all add: classify_defs)
  show ?thesis
    using hyps more names
      classifyError_cascade [of err_Canceled err_DeadlineExceeded
        "dummyNetError ''failed to parse address'' False" False
        "PgError ''42601'' ''SYNTAX error near unexpected token''"
        "PgError ''23505'' ''duplicate key''" "''23505''"
        "status_Error 13 ''internal error occurred''" 13
        "errors_New ''an unexpected error occurred''"]
    by simp
qed

end
